theory Spec2Isabelle
  imports Complex_Main "HOL-Library.Multiset"
begin

section \<open>Numbers, vectors and errors\<close>

text \<open>
  The simulator of \<^verbatim>\<open>orbital_simulator.py\<close> computes with Python floats and numpy
  arrays of three floats. The embedding reads every float as a real number, so all
  arithmetic below is exact: rounding, overflow, NaN and infinities are outside the model.
  A numpy array of length 3 is a value of \<open>vec\<close>; the arithmetic of numpy on such arrays
  is componentwise.
\<close>

datatype error = ValueError | KeyError | ZeroDivisionError

datatype vec = Vec (vx: real) (vy: real) (vz: real)

instantiation vec :: ab_group_add
begin

definition zero_vec :: vec where
  "zero_vec = Vec 0 0 0"

definition plus_vec :: "vec \<Rightarrow> vec \<Rightarrow> vec" where
  "plus_vec u v = Vec (vx u + vx v) (vy u + vy v) (vz u + vz v)"

definition minus_vec :: "vec \<Rightarrow> vec \<Rightarrow> vec" where
  "minus_vec u v = Vec (vx u - vx v) (vy u - vy v) (vz u - vz v)"

definition uminus_vec :: "vec \<Rightarrow> vec" where
  "uminus_vec u = Vec (- vx u) (- vy u) (- vz u)"

instance
  by standard (simp_all add: zero_vec_def plus_vec_def minus_vec_def uminus_vec_def vec.expand)

end

text \<open>\<^verbatim>\<open>c * v\<close> and \<^verbatim>\<open>v / c\<close> for a float \<open>c\<close> and an array \<open>v\<close>.\<close>

definition smul :: "real \<Rightarrow> vec \<Rightarrow> vec" where
  "smul c v = Vec (c * vx v) (c * vy v) (c * vz v)"

definition sdiv :: "vec \<Rightarrow> real \<Rightarrow> vec" where
  "sdiv v c = Vec (vx v / c) (vy v / c) (vz v / c)"

text \<open>\<^verbatim>\<open>np.dot(u, v)\<close> and \<^verbatim>\<open>np.linalg.norm(v)\<close>.\<close>

definition dot :: "vec \<Rightarrow> vec \<Rightarrow> real" where
  "dot u v = vx u * vx v + vy u * vy v + vz u * vz v"

definition vnorm :: "vec \<Rightarrow> real" where
  "vnorm v = sqrt (dot v v)"

text \<open>The physical constant \<^verbatim>\<open>G = 6.67430e-11\<close>.\<close>

definition G :: real where
  "G = 66743 / 10 ^ 15"

section \<open>CelestialBody\<close>

record CelestialBody =
  name :: string
  mass :: real
  position :: vec
  velocity :: vec
  radius :: real
  color :: string
  is_3d :: bool

text \<open>
  \<^verbatim>\<open>__post_init__\<close>, run by the generated constructor on the seven fields it was given.
  Position and velocity arrive as sequences of floats of any length. The position is
  examined first, then the velocity; each \<^verbatim>\<open>raise ValueError\<close> is an \<open>Inl\<close>.
\<close>

definition to_vec :: "real list \<Rightarrow> vec" where
  "to_vec xs = Vec (xs ! 0) (xs ! 1) (xs ! 2)"

definition post_init ::
  "string \<Rightarrow> real \<Rightarrow> real list \<Rightarrow> real list \<Rightarrow> real \<Rightarrow> string \<Rightarrow> bool \<Rightarrow> error + CelestialBody"
where
  "post_init name_in mass_in position_in velocity_in radius_in color_in is_3d_in =
    (case (if length position_in = 2 then Inr (position_in @ [0], False)
           else if length position_in = 3 then Inr (position_in, True)
           else Inl ValueError) of
       Inl e \<Rightarrow> Inl e
     | Inr (position1, is_3d1) \<Rightarrow>
        (case (if length velocity_in = 2 then Inr (velocity_in @ [0])
               else if length velocity_in = 3 then Inr velocity_in
               else Inl ValueError) of
           Inl e \<Rightarrow> Inl e
         | Inr velocity1 \<Rightarrow>
             Inr \<lparr> name = name_in, mass = mass_in, position = to_vec position1,
                   velocity = to_vec velocity1, radius = radius_in, color = color_in,
                   is_3d = is_3d1 \<rparr>))"

section \<open>PhysicsEngine\<close>

text \<open>
  \<^verbatim>\<open>gravitational_force(body1, body2)\<close>: the force on \<open>body1\<close> due to \<open>body2\<close>.
\<close>

definition gravitational_force :: "CelestialBody \<Rightarrow> CelestialBody \<Rightarrow> vec" where
  "gravitational_force body1 body2 =
    (let r_vec = position body2 - position body1;
         r = vnorm r_vec
     in if r < 10 ^ 6 then 0
        else (let force_magnitude = G * mass body1 * mass body2 / (r ^ 2);
                  force_direction = sdiv r_vec r
              in smul force_magnitude force_direction))"

text \<open>
  \<^verbatim>\<open>other_body != body\<close> is the negation of the equality that \<^verbatim>\<open>@dataclass\<close> generates:
  the two objects' fields are compared in declaration order. The bodies of the engine's
  list are pairwise distinct objects, so an object is identified by its place \<open>j\<close>, \<open>i\<close>
  in the list. An object equals itself. Two distinct objects differ as soon as their
  names or their masses differ; when both agree the comparison reaches the two position
  arrays, whose elementwise comparison has no truth value: numpy raises \<^verbatim>\<open>ValueError\<close>.
\<close>

definition body_ne :: "nat \<Rightarrow> CelestialBody \<Rightarrow> nat \<Rightarrow> CelestialBody \<Rightarrow> error + bool" where
  "body_ne j other_body i body =
    (if j = i then Inr False
     else if name other_body \<noteq> name body then Inr True
     else if mass other_body \<noteq> mass body then Inr True
     else Inl ValueError)"

text \<open>
  \<^verbatim>\<open>calculate_forces(body)\<close> for the body at place \<open>i\<close>: the loop over
  \<^verbatim>\<open>self.bodies\<close>, with the accumulator \<open>net_force\<close>.
\<close>

fun calculate_forces_loop ::
  "(nat \<times> CelestialBody) list \<Rightarrow> nat \<Rightarrow> CelestialBody \<Rightarrow> vec \<Rightarrow> error + vec" where
  "calculate_forces_loop [] i body net_force = Inr net_force"
| "calculate_forces_loop ((j, other_body) # rest) i body net_force =
    (case body_ne j other_body i body of
       Inl e \<Rightarrow> Inl e
     | Inr ne \<Rightarrow>
         if ne then calculate_forces_loop rest i body
                      (net_force + gravitational_force body other_body)
         else calculate_forces_loop rest i body net_force)"

definition calculate_forces :: "CelestialBody list \<Rightarrow> nat \<Rightarrow> error + vec" where
  "calculate_forces bodies_in i =
     calculate_forces_loop (enumerate 0 bodies_in) i (bodies_in ! i) 0"

text \<open>
  \<^verbatim>\<open>acceleration(body)\<close>: \<^verbatim>\<open>force / body.mass\<close>. numpy divides an array by a zero
  float without raising (it warns and yields nan or inf); the model has no error branch
  here either, and its quotient by a zero mass is the real-number convention \<open>x / 0 = 0\<close>,
  which stands for no float value.
\<close>

definition acceleration :: "CelestialBody list \<Rightarrow> nat \<Rightarrow> error + vec" where
  "acceleration bodies_in i =
    (case calculate_forces bodies_in i of
       Inl e \<Rightarrow> Inl e
     | Inr force \<Rightarrow> Inr (sdiv force (mass (bodies_in ! i))))"

text \<open>The comprehension \<^verbatim>\<open>[self.acceleration(body) for body in self.bodies]\<close>.\<close>

fun accelerations_of :: "CelestialBody list \<Rightarrow> nat list \<Rightarrow> error + vec list" where
  "accelerations_of bodies_in [] = Inr []"
| "accelerations_of bodies_in (i # rest) =
    (case acceleration bodies_in i of
       Inl e \<Rightarrow> Inl e
     | Inr a \<Rightarrow>
        (case accelerations_of bodies_in rest of
           Inl e \<Rightarrow> Inl e
         | Inr as \<Rightarrow> Inr (a # as)))"

definition all_accelerations :: "CelestialBody list \<Rightarrow> error + vec list" where
  "all_accelerations bodies_in = accelerations_of bodies_in [0..<length bodies_in]"

record PhysicsEngine =
  bodies :: "CelestialBody list"
  time :: real

text \<open>\<^verbatim>\<open>PhysicsEngine.__init__\<close>.\<close>

definition engine_init :: "CelestialBody list \<Rightarrow> PhysicsEngine" where
  "engine_init bodies_in = \<lparr> bodies = bodies_in, time = 0 \<rparr>"

text \<open>
  The three mutating loops of \<^verbatim>\<open>update_positions_velocities\<close>, each over
  \<^verbatim>\<open>enumerate(self.bodies)\<close>: the kick, the drift and the correction.
\<close>

definition kick :: "real \<Rightarrow> vec list \<Rightarrow> CelestialBody list \<Rightarrow> CelestialBody list" where
  "kick step_dt accelerations bs =
     map (\<lambda>(i, body). body\<lparr>velocity := velocity body + smul step_dt (accelerations ! i)\<rparr>)
         (enumerate 0 bs)"

definition drift :: "real \<Rightarrow> CelestialBody list \<Rightarrow> CelestialBody list" where
  "drift step_dt bs =
     map (\<lambda>(i, body). body\<lparr>position := position body + smul step_dt (velocity body)\<rparr>)
         (enumerate 0 bs)"

definition correct ::
  "real \<Rightarrow> vec list \<Rightarrow> vec list \<Rightarrow> vec list \<Rightarrow> CelestialBody list \<Rightarrow> CelestialBody list"
where
  "correct step_dt old_velocities accelerations new_accelerations bs =
     map (\<lambda>(i, body).
            let avg_acceleration = sdiv (accelerations ! i + new_accelerations ! i) 2
            in body\<lparr>velocity := old_velocities ! i + smul step_dt avg_acceleration\<rparr>)
         (enumerate 0 bs)"

definition update_positions_velocities :: "real \<Rightarrow> PhysicsEngine \<Rightarrow> error + PhysicsEngine" where
  "update_positions_velocities step_dt eng =
    (let old_velocities = map velocity (bodies eng)
     in case all_accelerations (bodies eng) of
          Inl e \<Rightarrow> Inl e
        | Inr accelerations \<Rightarrow>
           (let kicked = kick step_dt accelerations (bodies eng);
                drifted = drift step_dt kicked
            in case all_accelerations drifted of
                 Inl e \<Rightarrow> Inl e
               | Inr new_accelerations \<Rightarrow>
                   Inr (eng\<lparr> bodies := correct step_dt old_velocities accelerations
                                          new_accelerations drifted,
                             time := time eng + step_dt \<rparr>)))"

text \<open>
  \<^verbatim>\<open>get_orbital_energy(body)\<close> for the body at place \<open>i\<close>: the kinetic energy and the
  loop that accumulates \<open>potential\<close> over the other bodies.
\<close>

fun potential_loop ::
  "(nat \<times> CelestialBody) list \<Rightarrow> nat \<Rightarrow> CelestialBody \<Rightarrow> real \<Rightarrow> error + real" where
  "potential_loop [] i body potential = Inr potential"
| "potential_loop ((j, other_body) # rest) i body potential =
    (case body_ne j other_body i body of
       Inl e \<Rightarrow> Inl e
     | Inr ne \<Rightarrow>
         if ne then
           (let r = vnorm (position body - position other_body)
            in if r > 10 ^ 6
               then potential_loop rest i body
                      (potential - G * mass body * mass other_body / r)
               else potential_loop rest i body potential)
         else potential_loop rest i body potential)"

definition get_orbital_energy :: "CelestialBody list \<Rightarrow> nat \<Rightarrow> error + real" where
  "get_orbital_energy bodies_in i =
    (let body = bodies_in ! i;
         kinetic = 0.5 * mass body * dot (velocity body) (velocity body)
     in case potential_loop (enumerate 0 bodies_in) i body 0 of
          Inl e \<Rightarrow> Inl e
        | Inr potential \<Rightarrow> Inr (kinetic + potential))"

section \<open>OrbitalSimulator\<close>

text \<open>
  The simulator owns the engine, the step size, its own time cursor (the field
  \<^verbatim>\<open>time\<close> of the source, \<open>sim_time\<close> here, apart from the engine's \<open>time\<close>) and the
  dictionary \<open>trajectories\<close> from body names to the recorded positions.
\<close>

record OrbitalSimulator =
  physics_engine :: PhysicsEngine
  dt :: real
  sim_time :: real
  trajectories :: "string \<rightharpoonup> vec list"

text \<open>
  \<^verbatim>\<open>OrbitalSimulator.__init__\<close>: the dictionary comprehension gives every name an
  empty list.
\<close>

definition simulator_init :: "CelestialBody list \<Rightarrow> real \<Rightarrow> OrbitalSimulator" where
  "simulator_init bodies_in dt_in =
     \<lparr> physics_engine = engine_init bodies_in, dt = dt_in, sim_time = 0,
       trajectories = map_of (map (\<lambda>body. (name body, [])) bodies_in) \<rparr>"

text \<open>
  The first loop of \<^verbatim>\<open>step\<close>: \<^verbatim>\<open>self.trajectories[body.name].append(...)\<close>, a
  \<^verbatim>\<open>KeyError\<close> when the name is no key.
\<close>

fun record_positions ::
  "CelestialBody list \<Rightarrow> (string \<rightharpoonup> vec list) \<Rightarrow> error + (string \<rightharpoonup> vec list)" where
  "record_positions [] traj = Inr traj"
| "record_positions (body # rest) traj =
    (case traj (name body) of
       None \<Rightarrow> Inl KeyError
     | Some history \<Rightarrow> record_positions rest (traj(name body \<mapsto> history @ [position body])))"

definition step :: "OrbitalSimulator \<Rightarrow> error + OrbitalSimulator" where
  "step sim =
    (case record_positions (bodies (physics_engine sim)) (trajectories sim) of
       Inl e \<Rightarrow> Inl e
     | Inr traj \<Rightarrow>
        (case update_positions_velocities (dt sim) (physics_engine sim) of
           Inl e \<Rightarrow> Inl e
         | Inr eng \<Rightarrow>
             Inr (sim\<lparr> trajectories := traj, physics_engine := eng,
                       sim_time := sim_time sim + dt sim \<rparr>)))"

text \<open>
  \<^verbatim>\<open>int(x)\<close> on a float truncates towards zero. \<^verbatim>\<open>duration / self.dt\<close> on Python
  floats raises \<^verbatim>\<open>ZeroDivisionError\<close> for a zero divisor, and so does the integer
  \<^verbatim>\<open>step % (total_steps // 10)\<close> of the progress report; \<^verbatim>\<open>//\<close> on integers is the
  flooring \<open>div\<close>. The \<^verbatim>\<open>print\<close> leaves the state alone.
\<close>

definition py_int :: "real \<Rightarrow> int" where
  "py_int x = (if x \<ge> 0 then \<lfloor>x\<rfloor> else \<lceil>x\<rceil>)"

fun run_loop :: "int \<Rightarrow> nat list \<Rightarrow> OrbitalSimulator \<Rightarrow> error + OrbitalSimulator" where
  "run_loop total_steps [] sim = Inr sim"
| "run_loop total_steps (k # rest) sim =
    (case step sim of
       Inl e \<Rightarrow> Inl e
     | Inr sim' \<Rightarrow>
         if total_steps div 10 = 0 then Inl ZeroDivisionError
         else run_loop total_steps rest sim')"

definition run_simulation :: "real \<Rightarrow> OrbitalSimulator \<Rightarrow> error + OrbitalSimulator" where
  "run_simulation duration sim =
    (if dt sim = 0 then Inl ZeroDivisionError
     else (let total_steps = py_int (duration / dt sim)
           in run_loop total_steps [0..<nat total_steps] sim))"

text \<open>\<open>n\<close> calls of \<^verbatim>\<open>step\<close> in a row, stopping at the first that raises.\<close>

fun steps :: "nat \<Rightarrow> OrbitalSimulator \<Rightarrow> error + OrbitalSimulator" where
  "steps 0 sim = Inr sim"
| "steps (Suc n) sim = (case step sim of Inl e \<Rightarrow> Inl e | Inr sim' \<Rightarrow> steps n sim')"

text \<open>\<open>n\<close> calls of \<^verbatim>\<open>update_positions_velocities\<close> in a row.\<close>

fun updates :: "nat \<Rightarrow> real \<Rightarrow> PhysicsEngine \<Rightarrow> error + PhysicsEngine" where
  "updates 0 h eng = Inr eng"
| "updates (Suc n) h eng =
    (case update_positions_velocities h eng of Inl e \<Rightarrow> Inl e | Inr eng' \<Rightarrow> updates n h eng')"

section \<open>Notions used to state and prove the properties\<close>

text \<open>
  The loop over the other bodies raises exactly when some body at another place carries
  the same name and mass; otherwise it adds up the forces of the bodies at other places.
\<close>

definition clashes :: "nat \<Rightarrow> CelestialBody list \<Rightarrow> nat \<Rightarrow> CelestialBody \<Rightarrow> bool" where
  "clashes k xs i body =
     (\<exists>j<length xs. k + j \<noteq> i \<and> name (xs ! j) = name body \<and> mass (xs ! j) = mass body)"

definition force_terms :: "nat \<Rightarrow> CelestialBody list \<Rightarrow> nat \<Rightarrow> CelestialBody \<Rightarrow> vec" where
  "force_terms k xs i body =
     sum_list (map (\<lambda>(j, other). if j = i then 0 else gravitational_force body other)
                   (enumerate k xs))"

definition body_key :: "CelestialBody \<Rightarrow> string \<times> real" where
  "body_key body = (name body, mass body)"

text \<open>
  The net force and acceleration on a body as sums over the whole collection (a body
  exerts no force on itself), and the state of one body after the drift and after the
  whole step, written per body.
\<close>

definition net_force :: "CelestialBody list \<Rightarrow> CelestialBody \<Rightarrow> vec" where
  "net_force bs body = sum_list (map (gravitational_force body) bs)"

definition net_acceleration :: "CelestialBody list \<Rightarrow> CelestialBody \<Rightarrow> vec" where
  "net_acceleration bs body = sdiv (net_force bs body) (mass body)"

definition moved_body :: "real \<Rightarrow> CelestialBody list \<Rightarrow> CelestialBody \<Rightarrow> CelestialBody" where
  "moved_body h bs body =
     body\<lparr> velocity := velocity body + smul h (net_acceleration bs body),
           position := position body + smul h (velocity body + smul h (net_acceleration bs body)) \<rparr>"

definition stepped_body :: "real \<Rightarrow> CelestialBody list \<Rightarrow> CelestialBody \<Rightarrow> CelestialBody" where
  "stepped_body h bs body =
     body\<lparr> position := position body + smul h (velocity body + smul h (net_acceleration bs body)),
           velocity := velocity body +
             smul h (sdiv (net_acceleration bs body +
                           net_acceleration (map (moved_body h bs) bs) (moved_body h bs body)) 2) \<rparr>"

text \<open>Total linear momentum, and a collection reordered along a list of places.\<close>

definition total_momentum :: "CelestialBody list \<Rightarrow> vec" where
  "total_momentum bs = sum_list (map (\<lambda>body. smul (mass body) (velocity body)) bs)"

definition permute :: "nat list \<Rightarrow> 'a list \<Rightarrow> 'a list" where
  "permute ps xs = map (\<lambda>k. xs ! k) ps"

text \<open>Small bodies for concrete runs.\<close>

definition probe_a :: CelestialBody where
  "probe_a = \<lparr> name = ''A'', mass = 2, position = Vec 0 0 0, velocity = Vec 0 0 0,
               radius = 0, color = ''blue'', is_3d = True \<rparr>"

definition probe_b :: CelestialBody where
  "probe_b = \<lparr> name = ''B'', mass = 3, position = Vec (10 ^ 6) 0 0, velocity = Vec 0 1 0,
               radius = 0, color = ''blue'', is_3d = True \<rparr>"

definition probe_c :: CelestialBody where
  "probe_c = \<lparr> name = ''C'', mass = 5, position = Vec 1000 0 0, velocity = Vec 0 0 0,
               radius = 0, color = ''blue'', is_3d = True \<rparr>"

definition probe_d :: CelestialBody where
  "probe_d = \<lparr> name = ''D'', mass = 10 ^ 20, position = Vec (2 * 10 ^ 6) 0 0, velocity = Vec 5 0 0,
               radius = 0, color = ''blue'', is_3d = True \<rparr>"

definition massless :: CelestialBody where
  "massless = \<lparr> name = ''Dust'', mass = 0, position = Vec 0 (2 * 10 ^ 6) 0, velocity = Vec 1 0 0,
                radius = 0, color = ''gray'', is_3d = True \<rparr>"

section \<open>Vectors\<close>

lemma vnorm_axis: "vnorm (Vec x 0 0) = \<bar>x\<bar>"
  by (simp add: vnorm_def dot_def)

lemma vnorm_zero: "vnorm 0 = 0"
  by (simp add: vnorm_def dot_def zero_vec_def)

lemma vnorm_sdiv: "vnorm (sdiv v c) = vnorm v / \<bar>c\<bar>"
proof -
  have "dot (sdiv v c) (sdiv v c) = dot v v / (c * c)"
    by (simp add: dot_def sdiv_def add_divide_distrib)
  then show ?thesis
    by (simp add: vnorm_def real_sqrt_divide)
qed

lemma vnorm_smul: "vnorm (smul c v) = \<bar>c\<bar> * vnorm v"
proof -
  have "dot (smul c v) (smul c v) = (c * c) * dot v v"
    by (simp add: dot_def smul_def algebra_simps)
  then show ?thesis
    by (simp add: vnorm_def real_sqrt_mult)
qed

lemma sdiv_two: "sdiv v 2 = smul (1 / 2) v"
  by (simp add: sdiv_def smul_def)

section \<open>The force loop and the acceleration passes\<close>

lemma clashes_Nil: "clashes k [] i body = False"
  by (simp add: clashes_def)

lemma clashes_Cons:
  "clashes k (x # xs) i body =
     ((k \<noteq> i \<and> name x = name body \<and> mass x = mass body) \<or> clashes (Suc k) xs i body)"
  (is "?L = (?A \<or> ?B)")
proof
  assume ?L
  then obtain j where j: "j < length (x # xs)" "k + j \<noteq> i"
    "name ((x # xs) ! j) = name body" "mass ((x # xs) ! j) = mass body"
    unfolding clashes_def by blast
  show "?A \<or> ?B"
  proof (cases j)
    case 0
    with j show ?thesis by simp
  next
    case (Suc j')
    with j have "j' < length xs \<and> Suc k + j' \<noteq> i \<and>
        name (xs ! j') = name body \<and> mass (xs ! j') = mass body"
      by simp
    then have ?B unfolding clashes_def by blast
    then show ?thesis ..
  qed
next
  assume "?A \<or> ?B"
  then show ?L
  proof
    assume ?A
    then have "0 < length (x # xs) \<and> k + 0 \<noteq> i \<and>
        name ((x # xs) ! 0) = name body \<and> mass ((x # xs) ! 0) = mass body"
      by simp
    then show ?L unfolding clashes_def by blast
  next
    assume ?B
    then obtain j where "j < length xs" "Suc k + j \<noteq> i"
      "name (xs ! j) = name body" "mass (xs ! j) = mass body"
      unfolding clashes_def by blast
    then have "Suc j < length (x # xs) \<and> k + Suc j \<noteq> i \<and>
        name ((x # xs) ! Suc j) = name body \<and> mass ((x # xs) ! Suc j) = mass body"
      by simp
    then show ?L unfolding clashes_def by blast
  qed
qed

lemma calculate_forces_loop_char:
  "calculate_forces_loop (enumerate k xs) i body acc =
    (if clashes k xs i body then Inl ValueError
     else Inr (acc + force_terms k xs i body))"
proof (induction xs arbitrary: k acc)
  case Nil
  show ?case by (simp add: clashes_Nil force_terms_def)
next
  case (Cons x xs)
  show ?case
    by (simp add: Cons.IH body_ne_def clashes_Cons force_terms_def add.assoc)
qed

lemma gravitational_force_self: "gravitational_force b b = 0"
  by (simp add: gravitational_force_def vnorm_zero)

lemma force_terms_shift:
  "force_terms k xs i body =
     sum_list (map (gravitational_force body) xs) -
     (if k \<le> i \<and> i < k + length xs then gravitational_force body (xs ! (i - k)) else 0)"
proof (induction xs arbitrary: k)
  case Nil
  show ?case by (auto simp add: force_terms_def)
next
  case (Cons x xs)
  have step: "force_terms k (x # xs) i body =
      (if k = i then 0 else gravitational_force body x) + force_terms (Suc k) xs i body"
    by (simp add: force_terms_def)
  show ?case
  proof (cases "k = i")
    case True
    then show ?thesis unfolding step Cons.IH by simp
  next
    case False
    then show ?thesis unfolding step Cons.IH
      by (auto simp add: Suc_diff_le nth_Cons')
  qed
qed

lemma force_terms_net_force:
  "i < length bs \<Longrightarrow> force_terms 0 bs i (bs ! i) = net_force bs (bs ! i)"
  by (simp add: force_terms_shift net_force_def gravitational_force_self)

lemma clashes_key:
  "i < length bs \<Longrightarrow>
   clashes 0 bs i (bs ! i) =
     (\<exists>j<length bs. j \<noteq> i \<and> map body_key bs ! j = map body_key bs ! i)"
  by (auto simp add: clashes_def body_key_def)

lemma calculate_forces_char:
  "i < length bs \<Longrightarrow>
   calculate_forces bs i =
     (if clashes 0 bs i (bs ! i) then Inl ValueError else Inr (net_force bs (bs ! i)))"
  by (simp add: calculate_forces_def calculate_forces_loop_char force_terms_net_force)

lemma acceleration_char:
  "i < length bs \<Longrightarrow>
   acceleration bs i =
     (if clashes 0 bs i (bs ! i) then Inl ValueError else Inr (net_acceleration bs (bs ! i)))"
  by (simp add: acceleration_def calculate_forces_char net_acceleration_def)

lemma accelerations_of_char:
  "set is \<subseteq> {..<length bs} \<Longrightarrow>
   accelerations_of bs is =
     (if \<exists>i\<in>set is. clashes 0 bs i (bs ! i) then Inl ValueError
      else Inr (map (\<lambda>i. net_acceleration bs (bs ! i)) is))"
  by (induction "is") (simp_all add: acceleration_char)

lemma has_clash_distinct:
  "(\<exists>i<length bs. clashes 0 bs i (bs ! i)) = (\<not> distinct (map body_key bs))"
proof -
  have "(\<exists>i<length bs. clashes 0 bs i (bs ! i)) =
        (\<exists>i<length bs. \<exists>j<length bs. j \<noteq> i \<and> map body_key bs ! j = map body_key bs ! i)"
    using clashes_key by blast
  also have "\<dots> = (\<not> distinct (map body_key bs))"
    unfolding distinct_conv_nth length_map by blast
  finally show ?thesis .
qed

lemma all_accelerations_char:
  "all_accelerations bs =
     (if distinct (map body_key bs) then Inr (map (net_acceleration bs) bs) else Inl ValueError)"
proof -
  have idx: "map (\<lambda>i. net_acceleration bs (bs ! i)) [0..<length bs] = map (net_acceleration bs) bs"
    by (rule nth_equalityI) simp_all
  have clash: "(\<exists>i\<in>set [0..<length bs]. clashes 0 bs i (bs ! i)) =
      (\<not> distinct (map body_key bs))"
    using has_clash_distinct [of bs] by (simp add: Bex_def)
  have "set [0..<length bs] \<subseteq> {..<length bs}" by auto
  then have "accelerations_of bs [0..<length bs] =
     (if \<exists>i\<in>set [0..<length bs]. clashes 0 bs i (bs ! i) then Inl ValueError
      else Inr (map (\<lambda>i. net_acceleration bs (bs ! i)) [0..<length bs]))"
    by (rule accelerations_of_char)
  then show ?thesis
    unfolding all_accelerations_def clash idx by simp
qed

lemma distinct_names_keys:
  "distinct (map name bs) \<Longrightarrow> distinct (map body_key bs)"
  unfolding distinct_map inj_on_def body_key_def by auto

section \<open>The integrator step, body by body\<close>

lemma map_enumerate:
  "map (\<lambda>(i, x). f i x) (enumerate 0 xs) = map (\<lambda>i. f i (xs ! i)) [0..<length xs]"
  by (rule nth_equalityI) (simp_all add: nth_enumerate_eq)

lemma kick_char:
  "kick h (map (net_acceleration bs) bs) bs =
     map (\<lambda>body. body\<lparr>velocity := velocity body + smul h (net_acceleration bs body)\<rparr>) bs"
  unfolding kick_def map_enumerate
  by (rule nth_equalityI) simp_all

lemma drift_kick_char:
  "drift h (kick h (map (net_acceleration bs) bs) bs) = map (moved_body h bs) bs"
  unfolding kick_char drift_def map_enumerate
  by (rule nth_equalityI) (simp_all add: moved_body_def)

lemma body_key_moved: "body_key (moved_body h bs body) = body_key body"
  by (simp add: body_key_def moved_body_def)

lemma keys_moved: "map body_key (map (moved_body h bs) bs') = map body_key bs'"
  by (simp add: body_key_moved)

lemma correct_char:
  "correct h (map velocity bs) (map (net_acceleration bs) bs)
      (map (net_acceleration (map (moved_body h bs) bs)) (map (moved_body h bs) bs))
      (map (moved_body h bs) bs) =
   map (stepped_body h bs) bs"
  unfolding correct_def map_enumerate
  by (rule nth_equalityI) (simp_all add: stepped_body_def moved_body_def Let_def)

lemma update_positions_velocities_char:
  "update_positions_velocities h eng =
    (if distinct (map body_key (bodies eng))
     then Inr (eng\<lparr> bodies := map (stepped_body h (bodies eng)) (bodies eng),
                    time := time eng + h \<rparr>)
     else Inl ValueError)"
proof (cases "distinct (map body_key (bodies eng))")
  case False
  then show ?thesis
    unfolding update_positions_velocities_def Let_def all_accelerations_char by simp
next
  case True
  let ?bs = "bodies eng"
  let ?mv = "map (moved_body h ?bs) ?bs"
  have first: "all_accelerations ?bs = Inr (map (net_acceleration ?bs) ?bs)"
    using True by (simp only: all_accelerations_char if_True)
  have "distinct (map body_key ?mv)"
    using True by (simp only: keys_moved)
  then have second: "all_accelerations ?mv = Inr (map (net_acceleration ?mv) ?mv)"
    by (simp only: all_accelerations_char if_True)
  show ?thesis
    unfolding update_positions_velocities_def Let_def first sum.case drift_kick_char second
      correct_char
    using True by (simp only: if_True)
qed

section \<open>Steps of the simulator\<close>

lemma record_positions_ok:
  "name ` set bs \<subseteq> dom traj \<Longrightarrow>
   \<exists>traj'. record_positions bs traj = Inr traj' \<and> dom traj' = dom traj"
proof (induction bs arbitrary: traj)
  case Nil
  show ?case by simp
next
  case (Cons b bs)
  from Cons.prems obtain history where h: "traj (name b) = Some history" by auto
  let ?t = "traj(name b \<mapsto> history @ [position b])"
  have d: "dom ?t = dom traj" using h by auto
  with Cons.prems have "name ` set bs \<subseteq> dom ?t" by simp
  from Cons.IH [OF this] obtain traj' where
    r: "record_positions bs ?t = Inr traj'" "dom traj' = dom ?t" by blast
  have "record_positions (b # bs) traj = record_positions bs ?t"
    using h by simp
  with r d show ?case by metis
qed

lemma names_stepped: "map name (map (stepped_body h bs) bs') = map name bs'"
  by (simp add: stepped_body_def)

lemma step_ok:
  assumes "distinct (map name (bodies (physics_engine sim)))"
    and "name ` set (bodies (physics_engine sim)) \<subseteq> dom (trajectories sim)"
  shows "\<exists>sim'. step sim = Inr sim' \<and>
           map name (bodies (physics_engine sim')) = map name (bodies (physics_engine sim)) \<and>
           dom (trajectories sim') = dom (trajectories sim) \<and> dt sim' = dt sim"
proof -
  from record_positions_ok [OF assms(2)] obtain traj' where
    t: "record_positions (bodies (physics_engine sim)) (trajectories sim) = Inr traj'"
       "dom traj' = dom (trajectories sim)" by blast
  have k: "distinct (map body_key (bodies (physics_engine sim)))"
    using assms(1) by (rule distinct_names_keys)
  show ?thesis
    unfolding step_def t sum.case update_positions_velocities_char
    using k t(2) by (simp add: names_stepped del: map_map)
qed

lemma steps_ok:
  "distinct (map name (bodies (physics_engine sim))) \<Longrightarrow>
   name ` set (bodies (physics_engine sim)) \<subseteq> dom (trajectories sim) \<Longrightarrow>
   \<exists>sim'. steps n sim = Inr sim'"
proof (induction n arbitrary: sim)
  case 0
  show ?case by simp
next
  case (Suc n)
  from step_ok [OF Suc.prems] obtain sim' where
    s: "step sim = Inr sim'"
       "map name (bodies (physics_engine sim')) = map name (bodies (physics_engine sim))"
       "dom (trajectories sim') = dom (trajectories sim)" by blast
  have "distinct (map name (bodies (physics_engine sim')))"
    using Suc.prems(1) s(2) by simp
  moreover have "name ` set (bodies (physics_engine sim')) \<subseteq> dom (trajectories sim')"
  proof -
    have "name ` set (bodies (physics_engine sim')) = set (map name (bodies (physics_engine sim')))"
      by simp
    also have "\<dots> = name ` set (bodies (physics_engine sim))"
      unfolding s(2) by simp
    finally show ?thesis using Suc.prems(2) s(3) by simp
  qed
  ultimately have "\<exists>sim''. steps n sim' = Inr sim''" by (rule Suc.IH)
  then show ?case by (simp add: s(1))
qed

lemma simulator_init_keys:
  "name ` set bs \<subseteq> dom (trajectories (simulator_init bs d))"
  by (auto simp add: simulator_init_def dom_map_of_conv_image_fst image_image)

lemma step_times:
  "step sim = Inr sim' \<Longrightarrow>
   sim_time sim' = sim_time sim + dt sim \<and>
   time (physics_engine sim') = time (physics_engine sim) + dt sim \<and> dt sim' = dt sim"
  by (auto simp add: step_def update_positions_velocities_char split: sum.splits if_splits)

lemma steps_times:
  "steps n sim = Inr sim' \<Longrightarrow>
   sim_time sim' = sim_time sim + real n * dt sim \<and>
   time (physics_engine sim') = time (physics_engine sim) + real n * dt sim \<and> dt sim' = dt sim"
proof (induction n arbitrary: sim)
  case 0
  then show ?case by simp
next
  case (Suc n)
  from Suc.prems obtain mid where m: "step sim = Inr mid" "steps n mid = Inr sim'"
    by (auto split: sum.splits)
  from step_times [OF m(1)] Suc.IH [OF m(2)] show ?case
    by (simp add: algebra_simps)
qed


section \<open>Forces cancel in pairs\<close>

lemma vnorm_uminus: "vnorm (- v) = vnorm v"
  by (simp add: vnorm_def dot_def uminus_vec_def)

lemma sdiv_uminus: "sdiv (- v) c = - sdiv v c"
  by (simp add: sdiv_def uminus_vec_def)

lemma smul_uminus: "smul c (- v) = - smul c v"
  by (simp add: smul_def uminus_vec_def)

lemma smul_zero: "smul c 0 = 0"
  by (simp add: smul_def zero_vec_def)

lemma smul_add: "smul c (u + v) = smul c u + smul c v"
  by (simp add: smul_def plus_vec_def algebra_simps)

lemma smul_sum_list: "smul c (sum_list (map f xs)) = sum_list (map (\<lambda>x. smul c (f x)) xs)"
  by (induction xs) (simp_all add: smul_zero smul_add)

lemma gravitational_force_antisym:
  "gravitational_force a b = - gravitational_force b a"
proof -
  have flip: "position a - position b = - (position b - position a)" by simp
  show ?thesis
    unfolding gravitational_force_def Let_def flip vnorm_uminus sdiv_uminus smul_uminus
    by (simp add: mult.commute mult.left_commute)
qed

lemma net_force_sum_zero: "sum_list (map (net_force bs) bs) = 0"
proof (induction bs)
  case Nil
  show ?case by simp
next
  case (Cons x xs)
  have mirrored: "sum_list (map (\<lambda>a. gravitational_force a x) xs) =
      - sum_list (map (gravitational_force x) xs)"
  proof -
    have "gravitational_force a x = (uminus \<circ> gravitational_force x) a" for a
      unfolding comp_def by (rule gravitational_force_antisym)
    then have "map (\<lambda>a. gravitational_force a x) xs = map (uminus \<circ> gravitational_force x) xs"
      by (intro map_cong refl)
    then show ?thesis by (simp only: uminus_sum_list_map)
  qed
  have "net_force (x # xs) a = gravitational_force a x + net_force xs a" for a
    by (simp add: net_force_def)
  then have "map (net_force (x # xs)) xs =
      map (\<lambda>a. gravitational_force a x + net_force xs a) xs"
    by (intro map_cong refl)
  then have "sum_list (map (net_force (x # xs)) xs) =
      sum_list (map (\<lambda>a. gravitational_force a x + net_force xs a) xs)"
    by (rule arg_cong)
  also have "\<dots> = sum_list (map (\<lambda>a. gravitational_force a x) xs) + sum_list (map (net_force xs) xs)"
    by (simp add: sum_list_addf)
  finally have rest: "sum_list (map (net_force (x # xs)) xs) =
      - sum_list (map (gravitational_force x) xs)"
    using mirrored Cons.IH by simp
  have "net_force (x # xs) x = sum_list (map (gravitational_force x) xs)"
    by (simp add: net_force_def gravitational_force_self)
  with rest show ?case by simp
qed

lemma momentum_of_stepped_body:
  assumes "mass body \<noteq> 0"
  shows "smul (mass body) (velocity (stepped_body h bs body)) =
     smul (mass body) (velocity body) +
     (smul (h / 2) (net_force bs body) +
      smul (h / 2) (net_force (map (moved_body h bs) bs) (moved_body h bs body)))"
proof -
  have m: "mass (moved_body h bs body) = mass body"
    by (simp add: moved_body_def)
  show ?thesis
    using assms
    by (simp add: stepped_body_def net_acceleration_def m smul_def sdiv_def plus_vec_def
        field_simps)
qed

lemma total_momentum_stepped:
  assumes "\<forall>body\<in>set bs. mass body \<noteq> 0"
  shows "total_momentum (map (stepped_body h bs) bs) = total_momentum bs"
proof -
  let ?mv = "map (moved_body h bs) bs"
  have mass_same: "mass (stepped_body h bs body) = mass body" for body
    by (simp add: stepped_body_def)
  have "total_momentum (map (stepped_body h bs) bs) =
      sum_list (map (\<lambda>body. smul (mass body) (velocity (stepped_body h bs body))) bs)"
    by (simp add: total_momentum_def comp_def mass_same)
  also have "\<dots> = sum_list (map (\<lambda>body. smul (mass body) (velocity body) +
        (smul (h / 2) (net_force bs body) +
         smul (h / 2) (net_force ?mv (moved_body h bs body)))) bs)"
    using assms by (intro arg_cong [where f = sum_list] map_cong refl momentum_of_stepped_body) simp
  also have "\<dots> = total_momentum bs +
      (smul (h / 2) (sum_list (map (net_force bs) bs)) +
       smul (h / 2) (sum_list (map (net_force ?mv) ?mv)))"
    by (simp add: sum_list_addf total_momentum_def smul_sum_list comp_def)
  also have "\<dots> = total_momentum bs"
    by (simp only: net_force_sum_zero smul_zero add_0_right)
  finally show ?thesis .
qed

lemma update_ok:
  assumes "distinct (map name (bodies eng))" and "\<forall>body\<in>set (bodies eng). 0 < mass body"
  shows "\<exists>eng'. update_positions_velocities h eng = Inr eng' \<and>
      distinct (map name (bodies eng')) \<and> (\<forall>body\<in>set (bodies eng'). 0 < mass body) \<and>
      total_momentum (bodies eng') = total_momentum (bodies eng)"
proof -
  let ?bs = "bodies eng"
  let ?eng' = "eng\<lparr> bodies := map (stepped_body h ?bs) ?bs, time := time eng + h \<rparr>"
  have "distinct (map body_key ?bs)"
    using assms(1) by (rule distinct_names_keys)
  then have run: "update_positions_velocities h eng = Inr ?eng'"
    by (simp only: update_positions_velocities_char if_True)
  have names: "distinct (map name (bodies ?eng'))"
    using assms(1) by (simp add: names_stepped del: map_map)
  have masses: "\<forall>body\<in>set (bodies ?eng'). 0 < mass body"
    using assms(2) by (simp add: stepped_body_def)
  have "\<forall>body\<in>set ?bs. mass body \<noteq> 0"
    using assms(2) by auto
  then have "total_momentum (bodies ?eng') = total_momentum ?bs"
    by (simp add: total_momentum_stepped)
  with run names masses show ?thesis by blast
qed

lemma updates_ok:
  "distinct (map name (bodies eng)) \<Longrightarrow> \<forall>body\<in>set (bodies eng). 0 < mass body \<Longrightarrow>
   \<exists>eng'. updates n h eng = Inr eng' \<and> total_momentum (bodies eng') = total_momentum (bodies eng)"
proof (induction n arbitrary: eng)
  case 0
  show ?case by simp
next
  case (Suc n)
  from update_ok [OF Suc.prems, of h] obtain mid where
    m: "update_positions_velocities h eng = Inr mid"
       "distinct (map name (bodies mid))" "\<forall>body\<in>set (bodies mid). 0 < mass body"
       "total_momentum (bodies mid) = total_momentum (bodies eng)" by blast
  from Suc.IH [OF m(2) m(3)] obtain eng' where
    "updates n h mid = Inr eng'" "total_momentum (bodies eng') = total_momentum (bodies mid)"
    by blast
  with m(1) m(4) show ?case by simp
qed


section \<open>Reordering the collection\<close>

lemma mset_permute:
  assumes "mset ps = mset [0..<length xs]"
  shows "mset (permute ps xs) = mset xs"
proof -
  have "mset (permute ps xs) = image_mset (\<lambda>k. xs ! k) (mset ps)"
    by (simp add: permute_def)
  also have "\<dots> = mset (map (\<lambda>k. xs ! k) [0..<length xs])"
    unfolding assms by simp
  also have "\<dots> = mset xs"
    by (simp only: map_nth)
  finally show ?thesis .
qed

lemma map_permute:
  assumes "set ps \<subseteq> {..<length xs}"
  shows "map f (permute ps xs) = permute ps (map f xs)"
  unfolding permute_def using assms by (auto simp add: subset_iff)

lemma net_force_mset:
  assumes "mset bs' = mset bs"
  shows "net_force bs' body = net_force bs body"
proof -
  have "net_force cs body = sum_mset (image_mset (gravitational_force body) (mset cs))" for cs
    unfolding net_force_def by (simp only: sum_mset_sum_list [symmetric] mset_map)
  then show ?thesis by (simp only: assms)
qed

lemma moved_body_mset:
  assumes "mset bs' = mset bs"
  shows "moved_body h bs' body = moved_body h bs body"
  unfolding moved_body_def net_acceleration_def net_force_mset [OF assms] ..

lemma stepped_body_mset:
  assumes "mset bs' = mset bs"
  shows "stepped_body h bs' body = stepped_body h bs body"
proof -
  have mv: "moved_body h bs' = moved_body h bs"
    using assms by (intro ext moved_body_mset)
  have "mset (map (moved_body h bs) bs') = mset (map (moved_body h bs) bs)"
    using assms by (simp only: mset_map)
  then have later: "net_force (map (moved_body h bs) bs') b = net_force (map (moved_body h bs) bs) b"
    for b by (rule net_force_mset)
  show ?thesis
    unfolding stepped_body_def net_acceleration_def mv later net_force_mset [OF assms] ..
qed

lemma accelerations_probe_pair: "all_accelerations [probe_a, probe_d] =
   Inr [Vec (G * 10 ^ 20 / (4 * 10 ^ 12)) 0 0, Vec (- (G * 2 / (4 * 10 ^ 12))) 0 0]"
  by (simp add: all_accelerations_char body_key_def probe_a_def probe_d_def net_acceleration_def
      net_force_def gravitational_force_def minus_vec_def vnorm_axis smul_def sdiv_def
      plus_vec_def zero_vec_def)

section \<open>The integrator step (C1)\<close>

text \<open>
  C1. One call of \<^verbatim>\<open>update_positions_velocities\<close> with step size \<open>h\<close>, on any body
  collection, is the predictor-corrector sequence: the accelerations \<open>a0\<close> come from
  the bodies as they are before the step; every velocity is kicked by \<open>a0 ! i\<close> times
  \<open>h\<close> and every position drifts by the kicked velocity times \<open>h\<close>; the accelerations
  \<open>a1\<close> come from the bodies so moved; the stored velocity of body \<open>i\<close> is its velocity
  before the step plus \<open>h\<close> times half of \<open>a0 ! i + a1 ! i\<close>, the kicked velocity being
  dropped; the engine's time advances by \<open>h\<close>. Where an acceleration pass raises, so does
  the call.
\<close>

theorem update_positions_velocities_sequence:
  "update_positions_velocities h eng =
    (case all_accelerations (bodies eng) of
       Inl e \<Rightarrow> Inl e
     | Inr a0 \<Rightarrow>
        (case all_accelerations
                (map (\<lambda>i. (bodies eng ! i)
                        \<lparr> velocity := velocity (bodies eng ! i) + smul h (a0 ! i),
                          position := position (bodies eng ! i) +
                             smul h (velocity (bodies eng ! i) + smul h (a0 ! i)) \<rparr>)
                     [0..<length (bodies eng)]) of
           Inl e \<Rightarrow> Inl e
         | Inr a1 \<Rightarrow>
            Inr (eng\<lparr> bodies :=
                        map (\<lambda>i. (bodies eng ! i)
                               \<lparr> position := position (bodies eng ! i) +
                                    smul h (velocity (bodies eng ! i) + smul h (a0 ! i)),
                                 velocity := velocity (bodies eng ! i) +
                                    smul h (smul (1 / 2) (a0 ! i + a1 ! i)) \<rparr>)
                            [0..<length (bodies eng)],
                      time := time eng + h \<rparr>)))"
proof -
  let ?bs = "bodies eng"
  have moved: "drift h (kick h a0 ?bs) =
      map (\<lambda>i. (?bs ! i)\<lparr> velocity := velocity (?bs ! i) + smul h (a0 ! i),
                           position := position (?bs ! i) +
                             smul h (velocity (?bs ! i) + smul h (a0 ! i)) \<rparr>)
          [0..<length ?bs]" for a0
    unfolding kick_def drift_def map_enumerate
    by (rule nth_equalityI) simp_all
  have final: "correct h (map velocity ?bs) a0 a1
        (map (\<lambda>i. (?bs ! i)\<lparr> velocity := velocity (?bs ! i) + smul h (a0 ! i),
                           position := position (?bs ! i) +
                             smul h (velocity (?bs ! i) + smul h (a0 ! i)) \<rparr>)
          [0..<length ?bs]) =
      map (\<lambda>i. (?bs ! i)\<lparr> position := position (?bs ! i) +
                             smul h (velocity (?bs ! i) + smul h (a0 ! i)),
                           velocity := velocity (?bs ! i) +
                             smul h (smul (1 / 2) (a0 ! i + a1 ! i)) \<rparr>)
          [0..<length ?bs]" for a0 a1
    unfolding correct_def map_enumerate
    by (rule nth_equalityI) (simp_all add: Let_def sdiv_two)
  show ?thesis
    unfolding update_positions_velocities_def Let_def moved final
    by (simp split: sum.splits)
qed

text \<open>
  One step of size 1 on \<open>probe_a\<close>, at rest at the origin, and \<open>probe_d\<close>: \<open>probe_a\<close>
  ends at \<open>a0\<close> times the square of the step size, since its drift used the kicked
  velocity.
\<close>

theorem update_positions_velocities_sequence_witness:
  "map position
     (case update_positions_velocities 1 (engine_init [probe_a, probe_d]) of
        Inl e \<Rightarrow> [] | Inr eng' \<Rightarrow> bodies eng') =
   [Vec (G * 10 ^ 20 / (4 * 10 ^ 12)) 0 0,
    Vec (2 * 10 ^ 6 + (5 - G * 2 / (4 * 10 ^ 12))) 0 0]"
proof -
  let ?moved = "[probe_a\<lparr> velocity := Vec (G * 10 ^ 20 / (4 * 10 ^ 12)) 0 0,
                         position := Vec (G * 10 ^ 20 / (4 * 10 ^ 12)) 0 0 \<rparr>,
                 probe_d\<lparr> velocity := Vec (5 - G * 2 / (4 * 10 ^ 12)) 0 0,
                         position := Vec (2 * 10 ^ 6 + (5 - G * 2 / (4 * 10 ^ 12))) 0 0 \<rparr>]"
  have moved: "map (\<lambda>i. ([probe_a, probe_d] ! i)
        \<lparr> velocity := velocity ([probe_a, probe_d] ! i) +
             smul 1 ([Vec (G * 10 ^ 20 / (4 * 10 ^ 12)) 0 0,
                      Vec (- (G * 2 / (4 * 10 ^ 12))) 0 0] ! i),
          position := position ([probe_a, probe_d] ! i) +
             smul 1 (velocity ([probe_a, probe_d] ! i) +
                     smul 1 ([Vec (G * 10 ^ 20 / (4 * 10 ^ 12)) 0 0,
                              Vec (- (G * 2 / (4 * 10 ^ 12))) 0 0] ! i)) \<rparr>)
      [0..<length [probe_a, probe_d]] = ?moved"
    by (simp add: upt_rec probe_a_def probe_d_def smul_def plus_vec_def)
  have "distinct (map body_key ?moved)"
    by (simp add: body_key_def probe_a_def probe_d_def)
  then obtain a1 where second: "all_accelerations ?moved = Inr a1"
    by (simp add: all_accelerations_char)
  have b: "bodies (engine_init [probe_a, probe_d]) = [probe_a, probe_d]"
    by (simp add: engine_init_def)
  have "\<exists>eng'. update_positions_velocities 1 (engine_init [probe_a, probe_d]) = Inr eng' \<and>
      map position (bodies eng') =
        [Vec (G * 10 ^ 20 / (4 * 10 ^ 12)) 0 0,
         Vec (2 * 10 ^ 6 + (5 - G * 2 / (4 * 10 ^ 12))) 0 0]"
    using update_positions_velocities_sequence [of 1 "engine_init [probe_a, probe_d]"]
    unfolding b accelerations_probe_pair sum.case moved second
    by (simp add: upt_rec probe_a_def probe_d_def smul_def plus_vec_def)
  then show ?thesis by auto
qed

section \<open>The force between two bodies (C2)\<close>

text \<open>
  C2. With \<open>r\<close> the distance between the two positions, \<^verbatim>\<open>gravitational_force(A, B)\<close>
  is the zero vector when \<open>r < 10 ^ 6\<close>; otherwise it is the unit vector from \<open>A\<close> towards
  \<open>B\<close> scaled by \<open>G * mass A * mass B / r\<^sup>2\<close>, so that its length is the absolute value
  of that magnitude.
\<close>

theorem gravitational_force_law:
  "let r_vec = position B - position A; r = vnorm r_vec;
       magnitude = G * mass A * mass B / r ^ 2
   in (r < 10 ^ 6 \<longrightarrow> gravitational_force A B = 0) \<and>
      (\<not> r < 10 ^ 6 \<longrightarrow>
         gravitational_force A B = smul magnitude (sdiv r_vec r) \<and>
         vnorm (sdiv r_vec r) = 1 \<and>
         vnorm (gravitational_force A B) = \<bar>magnitude\<bar>)"
proof -
  have unit: "vnorm (sdiv v (vnorm v)) = 1" if "\<not> vnorm v < 10 ^ 6" for v
  proof -
    from that have "0 < vnorm v" by simp
    then show ?thesis by (simp add: vnorm_sdiv)
  qed
  show ?thesis
    by (simp add: Let_def gravitational_force_def vnorm_smul unit)
qed

theorem gravitational_force_law_witness:
  "gravitational_force probe_a probe_c = 0 \<and>
   gravitational_force probe_a probe_b = Vec (G * 6 / 10 ^ 12) 0 0"
  using gravitational_force_law [of probe_c probe_a] gravitational_force_law [of probe_b probe_a]
  by (simp add: Let_def probe_a_def probe_b_def probe_c_def minus_vec_def vnorm_axis
      smul_def sdiv_def)

section \<open>Short runs (C3)\<close>

text \<open>
  C3 on the code. With a positive step size \<open>d\<close> and \<open>k\<close> between 1 and 9,
  \<^verbatim>\<open>run_simulation\<close> with duration \<open>k * d\<close> does not complete: \<open>total_steps\<close> is \<open>k\<close>,
  the first iteration performs one \<^verbatim>\<open>step\<close>, and the progress report then takes
  \<open>step % (total_steps // 10)\<close> with a zero divisor.
\<close>

theorem run_simulation_short_run_raises:
  "0 < d \<Longrightarrow> 1 \<le> k \<Longrightarrow> k < 10 \<Longrightarrow> dt sim = d \<Longrightarrow>
   run_simulation (real_of_int k * d) sim =
     (case step sim of Inl e \<Rightarrow> Inl e | Inr sim' \<Rightarrow> Inl ZeroDivisionError)"
proof -
  assume d: "0 < d" and k: "1 \<le> k" "k < 10" and s: "dt sim = d"
  have total: "py_int (real_of_int k * d / dt sim) = k"
    using d k s by (simp add: py_int_def)
  have "0 < nat k" using k by simp
  then have range: "[0..<nat k] = 0 # [Suc 0..<nat k]"
    by (simp add: upt_conv_Cons)
  have small: "k div 10 = 0" using k by simp
  show ?thesis
    unfolding run_simulation_def Let_def total range
    using d s small by (simp split: sum.splits)
qed


theorem run_simulation_short_run_raises_witness:
  "run_simulation (5 * 3600) (simulator_init [probe_a, probe_b] 3600) = Inl ZeroDivisionError"
proof -
  let ?sim = "simulator_init [probe_a, probe_b] 3600"
  have "distinct (map name (bodies (physics_engine ?sim)))"
    by (simp add: simulator_init_def engine_init_def probe_a_def probe_b_def)
  moreover have "name ` set (bodies (physics_engine ?sim)) \<subseteq> dom (trajectories ?sim)"
    using simulator_init_keys [of "[probe_a, probe_b]" 3600]
    by (simp add: simulator_init_def engine_init_def)
  ultimately obtain sim' where "step ?sim = Inr sim'"
    using step_ok by blast
  moreover have "dt ?sim = 3600" by (simp add: simulator_init_def)
  ultimately show ?thesis
    using run_simulation_short_run_raises [of 3600 5 ?sim] by simp
qed

section \<open>Construction and the mass (C4)\<close>

text \<open>
  C4, as the code has it. \<^verbatim>\<open>__post_init__\<close> never looks at the mass: whatever the mass
  (zero and negative included), construction succeeds as soon as position and velocity
  have 2 or 3 components, and the body carries the mass it was given.
\<close>

theorem post_init_ignores_mass:
  "(length p = 2 \<or> length p = 3) \<and> (length v = 2 \<or> length v = 3) \<Longrightarrow>
   \<exists>body. post_init n m p v r c f = Inr body \<and> mass body = m"
  by (auto simp add: post_init_def)

theorem post_init_ignores_mass_witness:
  "\<exists>body. post_init ''Void'' 0 [1, 2, 3] [4, 5] 1 ''red'' False = Inr body \<and> mass body = 0"
  using post_init_ignores_mass [of "[1, 2, 3]" "[4, 5]" "''Void''" 0 1 "''red''" False]
  by simp

text \<open>A body of mass \<open>- 5\<close> is constructed.\<close>

theorem post_init_negative_mass_counterexample:
  "post_init ''Ghost'' (- 5) [1, 2] [3, 4] 0 ''blue'' True =
     Inr \<lparr> name = ''Ghost'', mass = - 5, position = Vec 1 2 0, velocity = Vec 3 4 0,
           radius = 0, color = ''blue'', is_3d = False \<rparr>"
  by (simp add: post_init_def to_vec_def)

section \<open>The distance floor of the energy (C5)\<close>

text \<open>
  C5 at the boundary. \<open>probe_a\<close> and \<open>probe_b\<close> are exactly \<open>10 ^ 6\<close> apart. The force
  between them is not zero (the test \<open>r < 10 ^ 6\<close> fails), while the energy of \<open>probe_a\<close>,
  which is at rest, is \<open>0\<close>: the test \<open>r > 10 ^ 6\<close> fails too and the pair adds no
  potential term.
\<close>

theorem energy_floor_differs_at_boundary:
  "vnorm (position probe_b - position probe_a) = 10 ^ 6 \<and>
   gravitational_force probe_a probe_b = Vec (G * 6 / 10 ^ 12) 0 0 \<and>
   gravitational_force probe_a probe_b \<noteq> 0 \<and>
   get_orbital_energy [probe_a, probe_b] 0 = Inr 0"
  by (simp add: probe_a_def probe_b_def minus_vec_def vnorm_axis gravitational_force_def
      smul_def sdiv_def get_orbital_energy_def enumerate_eq_zip body_ne_def dot_def
      zero_vec_def G_def)

section \<open>Linear momentum (C6)\<close>

text \<open>
  C6. For bodies with positive masses and pairwise distinct names, and any step size,
  one call of \<^verbatim>\<open>update_positions_velocities\<close> returns and leaves the sum of
  \<open>mass * velocity\<close> over all bodies as it was; so does any number \<open>n\<close> of calls in a
  row (exact arithmetic).
\<close>

theorem linear_momentum_conserved:
  assumes "distinct (map name (bodies eng))" and "\<forall>body\<in>set (bodies eng). 0 < mass body"
  shows "(\<exists>eng'. update_positions_velocities h eng = Inr eng' \<and>
            total_momentum (bodies eng') = total_momentum (bodies eng)) \<and>
         (\<exists>eng'. updates n h eng = Inr eng' \<and>
            total_momentum (bodies eng') = total_momentum (bodies eng))"
  using update_ok [OF assms, of h] updates_ok [OF assms, of n h] by blast


theorem linear_momentum_conserved_witness:
  "distinct (map name [probe_a, probe_b]) \<and> 0 < mass probe_a \<and> 0 < mass probe_b \<and>
   (\<exists>eng'. updates 4 3600 (engine_init [probe_a, probe_b]) = Inr eng' \<and>
      total_momentum (bodies eng') = Vec 0 3 0)"
proof -
  have d: "distinct (map name (bodies (engine_init [probe_a, probe_b])))"
    by (simp add: engine_init_def probe_a_def probe_b_def)
  have m: "\<forall>body\<in>set (bodies (engine_init [probe_a, probe_b])). 0 < mass body"
    by (simp add: engine_init_def probe_a_def probe_b_def)
  have start: "total_momentum (bodies (engine_init [probe_a, probe_b])) = Vec 0 3 0"
    by (simp add: engine_init_def total_momentum_def probe_a_def probe_b_def smul_def
        plus_vec_def zero_vec_def)
  from linear_momentum_conserved [OF d m, of 3600 4] start
  have "\<exists>eng'. updates 4 3600 (engine_init [probe_a, probe_b]) = Inr eng' \<and>
      total_momentum (bodies eng') = Vec 0 3 0"
    by auto
  then show ?thesis by (simp add: probe_a_def probe_b_def)
qed

section \<open>Order of the bodies (C7)\<close>

text \<open>
  C7. For every body collection, every reordering \<open>ps\<close> of its places and every step
  size, the step on the reordered collection is the reordering of the step on the
  original one: the bodies of the result are those of the original result, taken along
  \<open>ps\<close>, and the call raises on the one exactly when it raises on the other (exact
  arithmetic).
\<close>

theorem step_commutes_with_permutation:
  assumes "mset ps = mset [0..<length (bodies eng)]"
  shows "update_positions_velocities h (eng\<lparr>bodies := permute ps (bodies eng)\<rparr>) =
    (case update_positions_velocities h eng of
       Inl e \<Rightarrow> Inl e
     | Inr eng' \<Rightarrow> Inr (eng'\<lparr>bodies := permute ps (bodies eng')\<rparr>))"
proof -
  let ?bs = "bodies eng"
  let ?bs' = "permute ps ?bs"
  have m: "mset ?bs' = mset ?bs"
    using assms by (rule mset_permute)
  have "set ps = set [0..<length ?bs]"
    using assms by (rule mset_eq_setD)
  then have range: "set ps \<subseteq> {..<length ?bs}" by auto
  have "mset (map body_key ?bs') = mset (map body_key ?bs)"
    using m by simp
  then have keys: "distinct (map body_key ?bs') = distinct (map body_key ?bs)"
    by (rule mset_eq_imp_distinct_iff)
  have "map (stepped_body h ?bs') ?bs' = map (stepped_body h ?bs) ?bs'"
    using stepped_body_mset [OF m] by (intro map_cong refl)
  also have "\<dots> = permute ps (map (stepped_body h ?bs) ?bs)"
    using range by (rule map_permute)
  finally have stepped: "map (stepped_body h ?bs') ?bs' = permute ps (map (stepped_body h ?bs) ?bs)" .
  show ?thesis
    unfolding update_positions_velocities_char
    by (simp add: keys stepped)
qed


theorem step_commutes_with_permutation_witness:
  "mset [1, 0] = mset [0..<length [probe_a, probe_b]] \<and>
   permute [1, 0] [probe_a, probe_b] = [probe_b, probe_a] \<and>
   (\<exists>eng'. update_positions_velocities 60 (engine_init [probe_a, probe_b]) = Inr eng' \<and>
      update_positions_velocities 60 (engine_init [probe_b, probe_a]) =
        Inr (eng'\<lparr>bodies := permute [1, 0] (bodies eng')\<rparr>))"
proof -
  have p: "mset [1, 0] = mset [0..<length (bodies (engine_init [probe_a, probe_b]))]"
    by (simp add: engine_init_def upt_rec)
  have q: "permute [1, 0] [probe_a, probe_b] = [probe_b, probe_a]"
    by (simp add: permute_def)
  have "distinct (map body_key (bodies (engine_init [probe_a, probe_b])))"
    by (simp add: engine_init_def body_key_def probe_a_def probe_b_def)
  then obtain eng' where
    r: "update_positions_velocities 60 (engine_init [probe_a, probe_b]) = Inr eng'"
    by (simp add: update_positions_velocities_char)
  from step_commutes_with_permutation [OF p, of 60] r q
  have "update_positions_velocities 60 (engine_init [probe_b, probe_a]) =
        Inr (eng'\<lparr>bodies := permute [1, 0] (bodies eng')\<rparr>)"
    by (simp add: engine_init_def)
  with p q r show ?thesis by (auto simp add: engine_init_def)
qed

section \<open>A zero mass during the step (C8)\<close>

text \<open>
  C8, as the code has it. No path of the step looks at a mass to abort: with a body of
  mass zero present and pairwise distinct names, \<^verbatim>\<open>update_positions_velocities\<close>
  returns normally, and leaves every name and mass as it was.
\<close>

theorem zero_mass_step_completes:
  "distinct (map name (bodies eng)) \<Longrightarrow>
   \<exists>body \<in> set (bodies eng). mass body = 0 \<Longrightarrow>
   \<exists>eng'. update_positions_velocities h eng = Inr eng' \<and>
          map name (bodies eng') = map name (bodies eng) \<and>
          map mass (bodies eng') = map mass (bodies eng)"
proof -
  assume "distinct (map name (bodies eng))"
  then have "distinct (map body_key (bodies eng))"
    by (rule distinct_names_keys)
  then show ?thesis
    by (simp add: update_positions_velocities_char stepped_body_def comp_def)
qed

theorem zero_mass_step_completes_witness:
  "\<exists>eng'. update_positions_velocities 1 (engine_init [massless, probe_a]) = Inr eng' \<and>
          map name (bodies eng') = [''Dust'', ''A''] \<and>
          map mass (bodies eng') = [0, 2]"
  using zero_mass_step_completes [of "engine_init [massless, probe_a]" 1]
  by (simp add: engine_init_def massless_def probe_a_def)

text \<open>The step on a massless body and \<open>probe_a\<close> does not raise.\<close>

theorem zero_mass_step_counterexample:
  "\<not> isl (update_positions_velocities 1 (engine_init [massless, probe_a]))"
  by (simp add: update_positions_velocities_char engine_init_def body_key_def massless_def
      probe_a_def)

section \<open>Construction and the dimensions (C9)\<close>

text \<open>
  C9, as the code has it. Construction succeeds exactly when position and velocity each
  have 2 or 3 components, and raises \<^verbatim>\<open>ValueError\<close> otherwise. A 2-component vector
  gets a third component \<open>0\<close>. The tag \<open>is_3d\<close> follows the position alone: it is false
  when the position came with 2 components and true when it came with 3, whatever the
  velocity and whatever tag was passed in.
\<close>

theorem post_init_dimensions:
  "post_init n m p v r c f =
    (if (length p = 2 \<or> length p = 3) \<and> (length v = 2 \<or> length v = 3)
     then Inr \<lparr> name = n, mass = m,
                position = Vec (p ! 0) (p ! 1) (if length p = 2 then 0 else p ! 2),
                velocity = Vec (v ! 0) (v ! 1) (if length v = 2 then 0 else v ! 2),
                radius = r, color = c, is_3d = (length p = 3) \<rparr>
     else Inl ValueError)"
  by (auto simp add: post_init_def to_vec_def nth_append)

theorem post_init_dimensions_witness:
  "post_init ''P'' 1 [1, 2] [3, 4, 5] 0 ''blue'' True =
     Inr \<lparr> name = ''P'', mass = 1, position = Vec 1 2 0, velocity = Vec 3 4 5,
           radius = 0, color = ''blue'', is_3d = False \<rparr> \<and>
   post_init ''Q'' 1 [1, 2, 3] [4, 5] 0 ''blue'' False =
     Inr \<lparr> name = ''Q'', mass = 1, position = Vec 1 2 3, velocity = Vec 4 5 0,
           radius = 0, color = ''blue'', is_3d = True \<rparr> \<and>
   post_init ''R'' 1 [1] [4, 5] 0 ''blue'' True = Inl ValueError \<and>
   post_init ''S'' 1 [1, 2] [4, 5, 6, 7] 0 ''blue'' True = Inl ValueError"
  using post_init_dimensions [of "''P''" 1 "[1, 2]" "[3, 4, 5]" 0 "''blue''" True]
        post_init_dimensions [of "''Q''" 1 "[1, 2, 3]" "[4, 5]" 0 "''blue''" False]
        post_init_dimensions [of "''R''" 1 "[1]" "[4, 5]" 0 "''blue''" True]
        post_init_dimensions [of "''S''" 1 "[1, 2]" "[4, 5, 6, 7]" 0 "''blue''" True]
  by simp

text \<open>
  A 3-component position with a 2-component velocity: the velocity is extended and the
  body is tagged \<open>is_3d = True\<close>.
\<close>

theorem post_init_planar_counterexample:
  "post_init ''Comet'' 7 [1, 2, 3] [4, 5] 0 ''blue'' False =
     Inr \<lparr> name = ''Comet'', mass = 7, position = Vec 1 2 3, velocity = Vec 4 5 0,
           radius = 0, color = ''blue'', is_3d = True \<rparr>"
  by (simp add: post_init_def to_vec_def)

section \<open>The two time cursors (C10)\<close>

text \<open>
  C10. On a freshly constructed simulator both time cursors are \<open>0\<close>; after \<open>n\<close> calls
  of \<^verbatim>\<open>step\<close> that returned, the simulator's time and its engine's time are equal
  to each other and to \<open>n * dt\<close> (exact arithmetic). For bodies with pairwise distinct
  names every call does return.
\<close>

theorem time_cursors_synchronized:
  "(\<forall>sim'. steps n (simulator_init bs d) = Inr sim' \<longrightarrow>
        sim_time sim' = time (physics_engine sim') \<and> sim_time sim' = real n * d) \<and>
   (distinct (map name bs) \<longrightarrow> (\<exists>sim'. steps n (simulator_init bs d) = Inr sim'))"
proof (intro conjI allI impI)
  fix sim'
  assume "steps n (simulator_init bs d) = Inr sim'"
  from steps_times [OF this]
  show "sim_time sim' = time (physics_engine sim')" and "sim_time sim' = real n * d"
    by (simp_all add: simulator_init_def engine_init_def)
next
  assume "distinct (map name bs)"
  then have "distinct (map name (bodies (physics_engine (simulator_init bs d))))"
    by (simp add: simulator_init_def engine_init_def)
  moreover have "name ` set (bodies (physics_engine (simulator_init bs d)))
      \<subseteq> dom (trajectories (simulator_init bs d))"
    using simulator_init_keys [of bs d] by (simp add: simulator_init_def engine_init_def)
  ultimately show "\<exists>sim'. steps n (simulator_init bs d) = Inr sim'"
    by (rule steps_ok)
qed


theorem time_cursors_synchronized_witness:
  "distinct (map name [probe_a, probe_b]) \<and>
   (\<exists>sim'. steps 3 (simulator_init [probe_a, probe_b] 3600) = Inr sim' \<and>
      sim_time sim' = 10800 \<and> time (physics_engine sim') = 10800)"
proof -
  have d: "distinct (map name [probe_a, probe_b])"
    by (simp add: probe_a_def probe_b_def)
  from time_cursors_synchronized [of 3 "[probe_a, probe_b]" 3600] d
  obtain sim' where s: "steps 3 (simulator_init [probe_a, probe_b] 3600) = Inr sim'" by blast
  with time_cursors_synchronized [of 3 "[probe_a, probe_b]" 3600]
  have "sim_time sim' = time (physics_engine sim') \<and> sim_time sim' = real 3 * 3600" by blast
  with s d show ?thesis by simp
qed


end
